theory Spec2Isabelle
  imports Main "HOL-Library.Word"
begin

section \<open>The ndt5 protocol messagers (\<^verbatim>\<open>ndt5/protocol/messager.go\<close>)\<close>

text \<open>
  The file defines the \<^verbatim>\<open>Encoding\<close> enumeration with its factory method
  \<^verbatim>\<open>Messager\<close>, the two implementations \<^verbatim>\<open>jsonMessager\<close> and
  \<^verbatim>\<open>tlvMessager\<close> of the \<^verbatim>\<open>Messager\<close> interface, and the reflective
  walker \<^verbatim>\<open>SendMetrics\<close>. Go strings and byte slices are both sequences of bytes
  and are modelled as \<^typ>\<open>string\<close>; the conversions \<^verbatim>\<open>[]byte(s)\<close> and
  \<^verbatim>\<open>string(b)\<close> are the identity on them.
\<close>

subsection \<open>Decimal formatting\<close>

text \<open>
  \<^verbatim>\<open>strconv.FormatInt(x, 10)\<close> and the verb \<^verbatim>\<open>%d\<close> of \<^verbatim>\<open>fmt\<close> print an
  integer in base ten, with a leading minus sign when it is negative.
\<close>

definition digit_char :: "nat \<Rightarrow> char" where
  "digit_char d = ''0123456789'' ! d"

function digits :: "nat \<Rightarrow> string" where
  "digits n = (if n < 10 then [digit_char n] else digits (n div 10) @ [digit_char (n mod 10)])"
  by pat_completeness auto
termination
  by (relation "measure id") auto

definition FormatInt :: "int \<Rightarrow> string" where
  "FormatInt i = (if i < 0 then CHR ''-'' # digits (nat (- i)) else digits (nat i))"

subsection \<open>JSON encoding of a string\<close>

text \<open>
  \<^verbatim>\<open>json.Marshal\<close> writes a string between double quotes. A double quote and a
  backslash get a backslash in front; newline, carriage return and tab have the short
  escapes; the other bytes below \<^verbatim>\<open>0x20\<close> and the three HTML characters are written
  as \<^verbatim>\<open>\u00XX\<close>; every other byte is copied. The strings marshalled in this file are
  decimal renderings, which hold digits and the minus sign only.
\<close>

definition hex_char :: "nat \<Rightarrow> char" where
  "hex_char d = ''0123456789abcdef'' ! d"

definition json_escape :: "char \<Rightarrow> string" where
  "json_escape c =
     (if c = CHR 0x22 then [CHR 0x5C, CHR 0x22]
      else if c = CHR 0x5C then [CHR 0x5C, CHR 0x5C]
      else if c = CHR 0x0A then [CHR 0x5C, CHR ''n'']
      else if c = CHR 0x0D then [CHR 0x5C, CHR ''r'']
      else if c = CHR 0x09 then [CHR 0x5C, CHR ''t'']
      else if of_char c < (32 :: nat) \<or> c = CHR ''<'' \<or> c = CHR ''>'' \<or> c = CHR ''&''
        then [CHR 0x5C, CHR ''u'', CHR ''0'', CHR ''0'',
              hex_char (of_char c div 16), hex_char (of_char c mod 16)]
      else [c])"

definition json_string :: "string \<Rightarrow> string" where
  "json_string s = CHR 0x22 # concat (map json_escape s) @ [CHR 0x22]"

subsection \<open>Encoding\<close>

text \<open>
  \<^verbatim>\<open>type Encoding int\<close> with the constants \<^verbatim>\<open>Unknown\<close>, \<^verbatim>\<open>JSON\<close> and
  \<^verbatim>\<open>TLV\<close> numbered by \<^verbatim>\<open>iota\<close>. Any other integer is also a value of the type.
\<close>

type_synonym Encoding = int

definition Unknown :: Encoding where "Unknown = 0"
definition JSON :: Encoding where "JSON = 1"
definition TLV :: Encoding where "TLV = 2"

definition Encoding_String :: "Encoding \<Rightarrow> string" where
  "Encoding_String e =
     (if e = Unknown then ''Unknown''
      else if e = JSON then ''JSON''
      else if e = TLV then ''TLV''
      else ''Bad Encoding value: '' @ FormatInt e)"

subsection \<open>What the package takes from its other files\<close>

text \<open>
  A Go \<^verbatim>\<open>error\<close> is either nil (\<^const>\<open>None\<close>) or a value: one made here by
  \<^verbatim>\<open>errors.New\<close>, or one that a codec returned.
\<close>

datatype 'e error = errors_New string | codec_error 'e

text \<open>The message that \<^verbatim>\<open>ReceiveJSONMessage\<close> returns a pointer to.\<close>

record JSONMessage =
  Msg :: string

text \<open>
  \<^verbatim>\<open>MessageType\<close>, \<^verbatim>\<open>Connection\<close>, the constant \<^verbatim>\<open>TestMsg\<close> and the four
  codec functions are declared in other files of the package. They are parameters here:
  \<open>'mt\<close> is the message type, \<open>'c\<close> the connection handle and \<open>'w\<close> the state of
  everything the codecs read and write, which each call takes and returns. A nil pointer
  and a nil slice are \<^const>\<open>None\<close>.
\<close>

record ('mt, 'c, 'e, 'w) externals =
  SendJSONMessage :: "'mt \<Rightarrow> string \<Rightarrow> 'c \<Rightarrow> 'w \<Rightarrow> 'e error option \<times> 'w"
  WriteTLVMessage :: "'c \<Rightarrow> 'mt \<Rightarrow> string \<Rightarrow> 'w \<Rightarrow> 'e error option \<times> 'w"
  ReceiveJSONMessage :: "'c \<Rightarrow> 'mt \<Rightarrow> 'w \<Rightarrow> (JSONMessage option \<times> 'e error option) \<times> 'w"
  ReadTLVMessage :: "'c \<Rightarrow> 'mt \<Rightarrow> 'w \<Rightarrow> (string option \<times> int \<times> 'e error option) \<times> 'w"
  TestMsg :: 'mt

text \<open>
  The process: the state the codecs work on, and the lines given to the standard logger
  (without its time stamp).
\<close>

record 'w state =
  world :: 'w
  logged :: "string list"

definition log_Println :: "string \<Rightarrow> 'w state \<Rightarrow> 'w state" where
  "log_Println line s = s\<lparr>logged := logged s @ [line]\<rparr>"

subsection \<open>The Messager interface and its two implementations\<close>

text \<open>An interface value is the table of its methods, bound to their receiver.\<close>

record ('mt, 'e, 'w) Messager =
  SendMessage :: "'mt \<Rightarrow> string \<Rightarrow> 'w \<Rightarrow> 'e error option \<times> 'w"
  SendS2CResults :: "64 word \<Rightarrow> 64 word \<Rightarrow> 64 word \<Rightarrow> 'w \<Rightarrow> 'e error option \<times> 'w"
  ReceiveMessage :: "'mt \<Rightarrow> 'w \<Rightarrow> (string option \<times> 'e error option) \<times> 'w"
  Encoding :: Encoding

datatype 'c jsonMessager = jsonMessager (jm_conn: 'c)

record s2cResult =
  ThroughputValue :: string
  UnsentDataAmount :: string
  TotalSentByte :: string

definition s2cResult_String :: "s2cResult \<Rightarrow> string" where
  \<open>s2cResult_String r =
     ''{"ThroughputValue":'' @ json_string (ThroughputValue r) @
     '',"UnsentDataAmount":'' @ json_string (UnsentDataAmount r) @
     '',"TotalSentByte":'' @ json_string (TotalSentByte r) @ ''}''\<close>

definition jsonMessager_SendMessage ::
  "('mt, 'c, 'e, 'w) externals \<Rightarrow> 'c jsonMessager \<Rightarrow> 'mt \<Rightarrow> string \<Rightarrow> 'w \<Rightarrow> 'e error option \<times> 'w" where
  "jsonMessager_SendMessage ex jm kind contents = SendJSONMessage ex kind contents (jm_conn jm)"

definition jsonMessager_SendS2CResults ::
  "('mt, 'c, 'e, 'w) externals \<Rightarrow> 'c jsonMessager \<Rightarrow> 64 word \<Rightarrow> 64 word \<Rightarrow> 64 word \<Rightarrow> 'w
     \<Rightarrow> 'e error option \<times> 'w" where
  "jsonMessager_SendS2CResults ex jm throughputKbps unsentBytes totalSentBytes =
     (let r = \<lparr>ThroughputValue = FormatInt (sint throughputKbps),
                UnsentDataAmount = FormatInt (sint unsentBytes),
                TotalSentByte = FormatInt (sint totalSentBytes)\<rparr>
      in WriteTLVMessage ex (jm_conn jm) (TestMsg ex) (s2cResult_String r))"

definition jsonMessager_ReceiveMessage ::
  "('mt, 'c, 'e, 'w) externals \<Rightarrow> 'c jsonMessager \<Rightarrow> 'mt \<Rightarrow> 'w
     \<Rightarrow> (string option \<times> 'e error option) \<times> 'w" where
  "jsonMessager_ReceiveMessage ex jm kind w =
     (case ReceiveJSONMessage ex (jm_conn jm) kind w of
        ((None, None), w') \<Rightarrow> ((None, Some (errors_New ''empty message received without error'')), w')
      | ((None, Some err), w') \<Rightarrow> ((None, Some err), w')
      | ((Some msg, err), w') \<Rightarrow> ((Some (Msg msg), err), w'))"

definition jsonMessager_Encoding :: "'c jsonMessager \<Rightarrow> Encoding" where
  "jsonMessager_Encoding jm = JSON"

datatype 'c tlvMessager = tlvMessager (tm_conn: 'c)

definition tlvMessager_SendMessage ::
  "('mt, 'c, 'e, 'w) externals \<Rightarrow> 'c tlvMessager \<Rightarrow> 'mt \<Rightarrow> string \<Rightarrow> 'w \<Rightarrow> 'e error option \<times> 'w" where
  "tlvMessager_SendMessage ex tm kind contents = WriteTLVMessage ex (tm_conn tm) kind contents"

definition tlvMessager_SendS2CResults ::
  "('mt, 'c, 'e, 'w) externals \<Rightarrow> 'c tlvMessager \<Rightarrow> 64 word \<Rightarrow> 64 word \<Rightarrow> 64 word \<Rightarrow> 'w
     \<Rightarrow> 'e error option \<times> 'w" where
  "tlvMessager_SendS2CResults ex tm throughputKbps unsentBytes totalSentBytes =
     (let msg = FormatInt (sint throughputKbps) @ '' '' @ FormatInt (sint unsentBytes) @ '' '' @
                FormatInt (sint totalSentBytes)
      in WriteTLVMessage ex (tm_conn tm) (TestMsg ex) msg)"

definition tlvMessager_ReceiveMessage ::
  "('mt, 'c, 'e, 'w) externals \<Rightarrow> 'c tlvMessager \<Rightarrow> 'mt \<Rightarrow> 'w
     \<Rightarrow> (string option \<times> 'e error option) \<times> 'w" where
  "tlvMessager_ReceiveMessage ex tm kind w =
     (case ReadTLVMessage ex (tm_conn tm) kind w of ((b, _, err), w') \<Rightarrow> ((b, err), w'))"

definition tlvMessager_Encoding :: "'c tlvMessager \<Rightarrow> Encoding" where
  "tlvMessager_Encoding tm = TLV"

text \<open>The two pointer types as values of the interface.\<close>

definition jsonMessager_iface ::
  "('mt, 'c, 'e, 'w) externals \<Rightarrow> 'c jsonMessager \<Rightarrow> ('mt, 'e, 'w) Messager" where
  "jsonMessager_iface ex jm =
     \<lparr>SendMessage = jsonMessager_SendMessage ex jm,
      SendS2CResults = jsonMessager_SendS2CResults ex jm,
      ReceiveMessage = jsonMessager_ReceiveMessage ex jm,
      Encoding = jsonMessager_Encoding jm\<rparr>"

definition tlvMessager_iface ::
  "('mt, 'c, 'e, 'w) externals \<Rightarrow> 'c tlvMessager \<Rightarrow> ('mt, 'e, 'w) Messager" where
  "tlvMessager_iface ex tm =
     \<lparr>SendMessage = tlvMessager_SendMessage ex tm,
      SendS2CResults = tlvMessager_SendS2CResults ex tm,
      ReceiveMessage = tlvMessager_ReceiveMessage ex tm,
      Encoding = tlvMessager_Encoding tm\<rparr>"

text \<open>
  \<^verbatim>\<open>func (e Encoding) Messager(conn Connection) Messager\<close>: nil is \<^const>\<open>None\<close>.
  The two branches that return nil write a line to the log first.
\<close>

definition Encoding_Messager ::
  "('mt, 'c, 'e, 'w) externals \<Rightarrow> Encoding \<Rightarrow> 'c \<Rightarrow> 'w state
     \<Rightarrow> ('mt, 'e, 'w) Messager option \<times> 'w state" where
  "Encoding_Messager ex e conn s =
     (if e = Unknown then (None, log_Println ''Error: Messager() called for Unknown type'' s)
      else if e = JSON then (Some (jsonMessager_iface ex (jsonMessager conn)), s)
      else if e = TLV then (Some (tlvMessager_iface ex (tlvMessager conn)), s)
      else (None, log_Println (''Bad Encoding value: '' @ FormatInt e) s))"

subsection \<open>Go values as reflection sees them\<close>

text \<open>The kinds of \<^verbatim>\<open>reflect.Kind\<close>, in its order, and the names \<^verbatim>\<open>Kind.String\<close> prints
  (\<open>IntK\<close> is \<^verbatim>\<open>reflect.Int\<close>).\<close>

datatype Kind =
    Invalid | Bool | IntK | Int8 | Int16 | Int32 | Int64
  | Uint | Uint8 | Uint16 | Uint32 | Uint64 | Uintptr
  | Float32 | Float64 | Complex64 | Complex128
  | Array | Chan | Func | Interface | Map | Ptr | Slice | String | Struct | UnsafePointer

fun Kind_String :: "Kind \<Rightarrow> string" where
  "Kind_String Invalid = ''invalid''"
| "Kind_String Bool = ''bool''"
| "Kind_String IntK = ''int''"
| "Kind_String Int8 = ''int8''"
| "Kind_String Int16 = ''int16''"
| "Kind_String Int32 = ''int32''"
| "Kind_String Int64 = ''int64''"
| "Kind_String Uint = ''uint''"
| "Kind_String Uint8 = ''uint8''"
| "Kind_String Uint16 = ''uint16''"
| "Kind_String Uint32 = ''uint32''"
| "Kind_String Uint64 = ''uint64''"
| "Kind_String Uintptr = ''uintptr''"
| "Kind_String Float32 = ''float32''"
| "Kind_String Float64 = ''float64''"
| "Kind_String Complex64 = ''complex64''"
| "Kind_String Complex128 = ''complex128''"
| "Kind_String Array = ''array''"
| "Kind_String Chan = ''chan''"
| "Kind_String Func = ''func''"
| "Kind_String Interface = ''interface''"
| "Kind_String Map = ''map''"
| "Kind_String Ptr = ''ptr''"
| "Kind_String Slice = ''slice''"
| "Kind_String String = ''string''"
| "Kind_String Struct = ''struct''"
| "Kind_String UnsafePointer = ''unsafe.Pointer''"

text \<open>
  The integer types by their underlying type, and the types of the kinds that are neither
  integers, strings, structs nor pointers. Of a value of the second group only its kind
  is kept: the walker never reads it.
\<close>

datatype int_type =
    int_t | int8_t | int16_t | int32_t | int64_t
  | uint_t | uint8_t | uint16_t | uint32_t | uint64_t | uintptr_t

datatype other_type =
    bool_t | float32_t | float64_t | complex64_t | complex128_t
  | array_t | chan_t | func_t | interface_t | map_t | slice_t | unsafe_pointer_t

fun int_type_Kind :: "int_type \<Rightarrow> Kind" where
  "int_type_Kind int_t = IntK"
| "int_type_Kind int8_t = Int8"
| "int_type_Kind int16_t = Int16"
| "int_type_Kind int32_t = Int32"
| "int_type_Kind int64_t = Int64"
| "int_type_Kind uint_t = Uint"
| "int_type_Kind uint8_t = Uint8"
| "int_type_Kind uint16_t = Uint16"
| "int_type_Kind uint32_t = Uint32"
| "int_type_Kind uint64_t = Uint64"
| "int_type_Kind uintptr_t = Uintptr"

fun other_type_Kind :: "other_type \<Rightarrow> Kind" where
  "other_type_Kind bool_t = Bool"
| "other_type_Kind float32_t = Float32"
| "other_type_Kind float64_t = Float64"
| "other_type_Kind complex64_t = Complex64"
| "other_type_Kind complex128_t = Complex128"
| "other_type_Kind array_t = Array"
| "other_type_Kind chan_t = Chan"
| "other_type_Kind func_t = Func"
| "other_type_Kind interface_t = Interface"
| "other_type_Kind map_t = Map"
| "other_type_Kind slice_t = Slice"
| "other_type_Kind unsafe_pointer_t = UnsafePointer"

text \<open>
  A value with what \<^verbatim>\<open>SendMetrics\<close> can observe of its dynamic type.
  \<^item> \<open>IntV t n r\<close>: an integer \<open>n\<close> of a type whose underlying type is \<open>t\<close>; \<open>r\<close> is
    what the type's own \<^verbatim>\<open>Format\<close>, \<^verbatim>\<open>Error\<close> or \<^verbatim>\<open>String\<close> method prints
    for it, when the type has one (\<^verbatim>\<open>fmt\<close> calls it for the verb \<^verbatim>\<open>%v\<close>).
  \<^item> \<open>StringV x\<close>: a value of string kind.
  \<^item> \<open>StructV r fs\<close>: a struct with the fields \<open>fs\<close> in declared order; \<open>r\<close> is the result
    of \<^verbatim>\<open>String()\<close> when the struct type itself implements \<^verbatim>\<open>fmt.Stringer\<close>.
  \<^item> \<open>PtrV p\<close>: a pointer, nil or to a value.
  \<^item> \<open>OtherV t\<close>: a value of any other kind.
  \<^item> \<open>NilV\<close>: the nil interface value.
  A field has the \<^verbatim>\<open>Name\<close> and \<^verbatim>\<open>PkgPath\<close> of its \<^verbatim>\<open>reflect.StructField\<close>: the
  package path is empty exactly for an exported field.
\<close>

datatype gval =
    IntV int_type int "string option"
  | StringV string
  | StructV "string option" "field list"
  | PtrV "gval option"
  | OtherV other_type
  | NilV
and field = Field (Name: string) (PkgPath: string) (Value: gval)

fun Kind_of :: "gval \<Rightarrow> Kind" where
  "Kind_of (IntV t n r) = int_type_Kind t"
| "Kind_of (StringV x) = String"
| "Kind_of (StructV r fs) = Struct"
| "Kind_of (PtrV p) = Ptr"
| "Kind_of (OtherV t) = other_type_Kind t"
| "Kind_of NilV = Interface"

text \<open>
  What a function call ends with: it returns its \<^verbatim>\<open>error\<close> result (nil is
  \<^const>\<open>None\<close>), or it panics.
\<close>

datatype 'e outcome = Returned "'e error option" | Panicked

subsection \<open>SendMetrics\<close>

text \<open>The call \<^verbatim>\<open>m.SendMessage(TestMsg, []byte(msg))\<close> in a process.\<close>

definition send ::
  "('mt, 'e, 'w) Messager \<Rightarrow> 'mt \<Rightarrow> string \<Rightarrow> 'w state \<Rightarrow> 'e error option \<times> 'w state" where
  "send m kind msg s =
     (case SendMessage m kind msg (world s) of (err, w') \<Rightarrow> (err, s\<lparr>world := w'\<rparr>))"

text \<open>
  \<^verbatim>\<open>SendMetrics\<close> first follows pointers down to a value, then walks the fields of that
  value. \<open>SendMetrics\<close> is the function from its entry, \<open>SendMetrics_fields\<close> the
  \<^verbatim>\<open>for\<close> loop from the field it has reached; \<open>testMsg\<close> is the constant
  \<^verbatim>\<open>TestMsg\<close> of the package.
  \<^item> \<^verbatim>\<open>reflect.ValueOf(nil).Type()\<close> panics, and so does \<^verbatim>\<open>v.Type()\<close> after
    \<^verbatim>\<open>v.Elem()\<close> on a nil pointer, and \<^verbatim>\<open>v.NumField()\<close> on a value that is not a
    struct.
  \<^item> \<^verbatim>\<open>v.Field(i).Interface()\<close> panics on an unexported field; \<^verbatim>\<open>v.Field(i).String()\<close>
    does not.
  \<^item> The \<^verbatim>\<open>switch\<close> is on the kind of the field's type. Its first case lists nine
    integer kinds, written out below; the kinds of strings and structs are those of
    \<open>StringV\<close> and \<open>StructV\<close>; every other value meets the \<^verbatim>\<open>default\<close> case.
\<close>

fun SendMetrics ::
  "'mt \<Rightarrow> ('mt, 'e, 'w) Messager \<Rightarrow> gval \<Rightarrow> string \<Rightarrow> 'w state \<Rightarrow> 'e outcome \<times> 'w state"
and SendMetrics_fields ::
  "'mt \<Rightarrow> ('mt, 'e, 'w) Messager \<Rightarrow> field list \<Rightarrow> string \<Rightarrow> 'w state \<Rightarrow> 'e outcome \<times> 'w state"
where
  "SendMetrics testMsg m NilV prefix s = (Panicked, s)"
| "SendMetrics testMsg m (PtrV None) prefix s = (Panicked, s)"
| "SendMetrics testMsg m (PtrV (Some v)) prefix s = SendMetrics testMsg m v prefix s"
| "SendMetrics testMsg m (StructV r fs) prefix s = SendMetrics_fields testMsg m fs prefix s"
| "SendMetrics testMsg m (IntV t n r) prefix s = (Panicked, s)"
| "SendMetrics testMsg m (StringV x) prefix s = (Panicked, s)"
| "SendMetrics testMsg m (OtherV t) prefix s = (Panicked, s)"
| "SendMetrics_fields testMsg m [] prefix s = (Returned None, s)"
| "SendMetrics_fields testMsg m (Field name pkg fv # rest) prefix s =
     (case fv of
        IntV t n r \<Rightarrow>
          if Kind_of fv \<in> {IntK, Int8, Int16, Int32, Int64, Uint8, Uint16, Uint32, Uint64} then
            if pkg \<noteq> [] then (Panicked, s)
            else
              (case send m testMsg
                      (prefix @ name @ '': '' @ (case r of None \<Rightarrow> FormatInt n | Some x \<Rightarrow> x) @
                       ''\<newline>'') s of
                 (Some err, s') \<Rightarrow> (Returned (Some err), s')
               | (None, s') \<Rightarrow> SendMetrics_fields testMsg m rest prefix s')
          else
            SendMetrics_fields testMsg m rest prefix
              (log_Println (''Unhandled case in SendMetrics: '' @ Kind_String (Kind_of fv)) s)
      | StringV x \<Rightarrow>
          (case send m testMsg (prefix @ name @ '': '' @ x @ ''\<newline>'') s of
             (Some err, s') \<Rightarrow> (Returned (Some err), s')
           | (None, s') \<Rightarrow> SendMetrics_fields testMsg m rest prefix s')
      | StructV r fs \<Rightarrow>
          if pkg \<noteq> [] then (Panicked, s)
          else
            (case (case r of
                     Some x \<Rightarrow>
                       (case send m testMsg (prefix @ name @ '': '' @ x @ ''\<newline>'') s of
                          (err, s') \<Rightarrow> (Returned err, s'))
                   | None \<Rightarrow> SendMetrics testMsg m fv (prefix @ name @ ''.'') s) of
               (Returned (Some err), s') \<Rightarrow> (Returned (Some err), s')
             | (Returned None, s') \<Rightarrow> SendMetrics_fields testMsg m rest prefix s'
             | (Panicked, s') \<Rightarrow> (Panicked, s'))
      | _ \<Rightarrow>
          SendMetrics_fields testMsg m rest prefix
            (log_Println (''Unhandled case in SendMetrics: '' @ Kind_String (Kind_of fv)) s))"

subsection \<open>Observers\<close>

text \<open>
  A codec that does nothing but record the calls made to it, in order; every call returns
  the error \<open>err\<close>, and a read returns the message \<open>msg\<close>. The state of the world is the
  list of calls so far.
\<close>

datatype ('mt, 'c) codec_call =
    Call_SendJSONMessage 'mt string 'c
  | Call_WriteTLVMessage 'c 'mt string
  | Call_ReceiveJSONMessage 'c 'mt
  | Call_ReadTLVMessage 'c 'mt

definition recording_codec ::
  "'mt \<Rightarrow> 'e error option \<Rightarrow> JSONMessage option
     \<Rightarrow> ('mt, 'c, 'e, ('mt, 'c) codec_call list) externals" where
  "recording_codec testMsg err msg =
     \<lparr>SendJSONMessage = (\<lambda>kind contents conn w. (err, w @ [Call_SendJSONMessage kind contents conn])),
      WriteTLVMessage = (\<lambda>conn kind contents w. (err, w @ [Call_WriteTLVMessage conn kind contents])),
      ReceiveJSONMessage = (\<lambda>conn kind w. ((msg, err), w @ [Call_ReceiveJSONMessage conn kind])),
      ReadTLVMessage =
        (\<lambda>conn kind w. ((map_option Msg msg, 0, err), w @ [Call_ReadTLVMessage conn kind])),
      TestMsg = testMsg\<rparr>"

text \<open>
  A messager that behaves as \<open>m\<close> and keeps, beside the state of \<open>m\<close>, the list of the
  calls of \<^verbatim>\<open>SendMessage\<close> made so far: the type, the contents and the error returned.
\<close>

definition recording ::
  "('mt, 'e, 'w) Messager \<Rightarrow> ('mt, 'e, 'w \<times> ('mt \<times> string \<times> 'e error option) list) Messager" where
  "recording m =
     \<lparr>SendMessage = (\<lambda>kind contents (w, tr).
        case SendMessage m kind contents w of (err, w') \<Rightarrow> (err, (w', tr @ [(kind, contents, err)]))),
      SendS2CResults = (\<lambda>a b c (w, tr).
        case SendS2CResults m a b c w of (err, w') \<Rightarrow> (err, (w', tr))),
      ReceiveMessage = (\<lambda>kind (w, tr).
        case ReceiveMessage m kind w of (res, w') \<Rightarrow> (res, (w', tr))),
      Encoding = Encoding m\<rparr>"

text \<open>The calls of \<^verbatim>\<open>SendMessage\<close> that a run of the walker has made.\<close>

definition attempts :: "'x \<times> ('w \<times> 'a list) state \<Rightarrow> 'a list" where
  "attempts res = snd (world (snd res))"

subsection \<open>The walk as a list of actions\<close>

text \<open>
  For the proofs, the walk of \<^verbatim>\<open>SendMetrics\<close> is split in two. \<open>actions\<close> and
  \<open>field_actions\<close> follow the same case analysis as \<open>SendMetrics\<close> and
  \<open>SendMetrics_fields\<close> and list, in order, what the walk does when no send fails: a
  message to send, a line to log, or a panic. \<open>perform\<close> does what is listed, up to the
  first send that returns an error or the first panic. That the two together are the walk
  is lemma \<open>SendMetrics_perform\<close> below.
\<close>

datatype action = Emit string | Note string | Crash

fun actions :: "gval \<Rightarrow> string \<Rightarrow> action list"
and field_actions :: "field list \<Rightarrow> string \<Rightarrow> action list" where
  "actions NilV prefix = [Crash]"
| "actions (PtrV None) prefix = [Crash]"
| "actions (PtrV (Some v)) prefix = actions v prefix"
| "actions (StructV r fs) prefix = field_actions fs prefix"
| "actions (IntV t n r) prefix = [Crash]"
| "actions (StringV x) prefix = [Crash]"
| "actions (OtherV t) prefix = [Crash]"
| "field_actions [] prefix = []"
| "field_actions (Field name pkg fv # rest) prefix =
     (case fv of
        IntV t n r \<Rightarrow>
          if Kind_of fv \<in> {IntK, Int8, Int16, Int32, Int64, Uint8, Uint16, Uint32, Uint64} then
            if pkg \<noteq> [] then [Crash]
            else [Emit (prefix @ name @ '': '' @ (case r of None \<Rightarrow> FormatInt n | Some x \<Rightarrow> x) @
                        ''\<newline>'')]
          else [Note (''Unhandled case in SendMetrics: '' @ Kind_String (Kind_of fv))]
      | StringV x \<Rightarrow> [Emit (prefix @ name @ '': '' @ x @ ''\<newline>'')]
      | StructV r fs \<Rightarrow>
          if pkg \<noteq> [] then [Crash]
          else (case r of
                  Some x \<Rightarrow> [Emit (prefix @ name @ '': '' @ x @ ''\<newline>'')]
                | None \<Rightarrow> actions fv (prefix @ name @ ''.''))
      | _ \<Rightarrow> [Note (''Unhandled case in SendMetrics: '' @ Kind_String (Kind_of fv))])
     @ field_actions rest prefix"

fun perform ::
  "'mt \<Rightarrow> ('mt, 'e, 'w) Messager \<Rightarrow> action list \<Rightarrow> 'w state \<Rightarrow> 'e outcome \<times> 'w state" where
  "perform testMsg m [] s = (Returned None, s)"
| "perform testMsg m (Emit msg # acts) s =
     (case send m testMsg msg s of
        (Some err, s') \<Rightarrow> (Returned (Some err), s')
      | (None, s') \<Rightarrow> perform testMsg m acts s')"
| "perform testMsg m (Note line # acts) s = perform testMsg m acts (log_Println line s)"
| "perform testMsg m (Crash # acts) s = (Panicked, s)"

section \<open>Properties\<close>

subsection \<open>Decimal strings need no JSON escape\<close>

lemma decimal_chars_plain: "\<forall>c \<in> set ''0123456789''. json_escape c = [c]"
  by (simp add: json_escape_def)

lemma digit_char_plain: "d < 10 \<Longrightarrow> json_escape (digit_char d) = [digit_char d]"
proof -
  assume "d < 10"
  then have "digit_char d \<in> set ''0123456789''"
    unfolding digit_char_def by (intro nth_mem) simp
  then show ?thesis
    using decimal_chars_plain by blast
qed

lemma digits_plain: "concat (map json_escape (digits n)) = digits n"
proof (induction n rule: digits.induct)
  case (1 n)
  show ?case
  proof (cases "n < 10")
    case True
    then show ?thesis by (subst (1 2) digits.simps) (simp add: digit_char_plain)
  next
    case False
    then show ?thesis using 1 by (subst (1 2) digits.simps) (simp add: digit_char_plain)
  qed
qed

lemma minus_plain: "json_escape CHR ''-'' = [CHR ''-'']"
  by (simp add: json_escape_def)

lemma FormatInt_plain: "concat (map json_escape (FormatInt i)) = FormatInt i"
proof (cases "i < 0")
  case True
  then have "FormatInt i = CHR ''-'' # digits (nat (- i))"
    by (simp add: FormatInt_def)
  then show ?thesis
    by (simp only: list.map concat.simps minus_plain digits_plain append.simps)
next
  case False
  then have "FormatInt i = digits (nat i)"
    by (simp add: FormatInt_def)
  then show ?thesis
    by (simp only: digits_plain)
qed

lemma json_string_FormatInt: "json_string (FormatInt i) = CHR 0x22 # FormatInt i @ [CHR 0x22]"
  by (simp only: json_string_def FormatInt_plain)

lemma s2cResult_String_decimal:
  \<open>s2cResult_String \<lparr>ThroughputValue = FormatInt a, UnsentDataAmount = FormatInt b, TotalSentByte = FormatInt c\<rparr> =
     ''{"ThroughputValue":"'' @ FormatInt a @ ''","UnsentDataAmount":"'' @ FormatInt b @
     ''","TotalSentByte":"'' @ FormatInt c @ ''"}''\<close>
  by (simp add: s2cResult_String_def json_string_FormatInt)

lemma digits_small: "n < 10 \<Longrightarrow> digits n = [digit_char n]"
  by (subst digits.simps) simp

lemma digits_large: "10 \<le> n \<Longrightarrow> digits n = digits (n div 10) @ [digit_char (n mod 10)]"
  by (subst digits.simps) simp

lemma FormatInt_1000: "FormatInt 1000 = ''1000''"
  by (simp add: FormatInt_def digits_small digits_large digit_char_def)
lemma FormatInt_0: "FormatInt 0 = ''0''"
  by (simp add: FormatInt_def digits_small digits_large digit_char_def)
lemma FormatInt_125000: "FormatInt 125000 = ''125000''"
  by (simp add: FormatInt_def digits_small digits_large digit_char_def)
lemma FormatInt_5: "FormatInt 5 = ''5''"
  by (simp add: FormatInt_def digits_small digits_large digit_char_def)

lemma FormatInt_1: "FormatInt 1 = ''1''"
  by (simp add: FormatInt_def digits_small digits_large digit_char_def)

subsection \<open>The factory and the two messagers\<close>

lemma jsonMessager_SendS2CResults_payload:
  \<open>jsonMessager_SendS2CResults ex jm a b c =
     WriteTLVMessage ex (jm_conn jm) (TestMsg ex)
       (''{"ThroughputValue":"'' @ FormatInt (sint a) @ ''","UnsentDataAmount":"'' @
        FormatInt (sint b) @ ''","TotalSentByte":"'' @ FormatInt (sint c) @ ''"}'')\<close>
  by (simp only: jsonMessager_SendS2CResults_def Let_def s2cResult_String_decimal)

text \<open>
  Claim C1, as the specification states it: both \<^verbatim>\<open>SendMessage\<close> and
  \<^verbatim>\<open>SendS2CResults\<close> of the JSON messager write through the JSON message codec and
  never through the TLV codec. For \<^verbatim>\<open>SendS2CResults\<close> this is not so: on a codec that
  records its calls, sending the results 1000, 0, 125000 makes exactly one call, and it is a
  call of \<^verbatim>\<open>WriteTLVMessage\<close>.
\<close>

theorem jsonMessager_SendS2CResults_calls_WriteTLVMessage:
  \<open>snd (jsonMessager_SendS2CResults (recording_codec (5 :: nat) (None :: unit error option) None)
          (jsonMessager (0 :: nat)) 1000 0 125000 []) =
     [Call_WriteTLVMessage 0 5
        ''{"ThroughputValue":"1000","UnsentDataAmount":"0","TotalSentByte":"125000"}'']\<close>
  by (simp add: jsonMessager_SendS2CResults_payload recording_codec_def
      FormatInt_1000 FormatInt_0 FormatInt_125000)

text \<open>
  Claim C1, amended: on the messager that the factory returns for \<^verbatim>\<open>JSON\<close>,
  \<^verbatim>\<open>SendMessage\<close> is the call of \<^verbatim>\<open>SendJSONMessage\<close> with the same type and
  contents on the messager's connection, whatever the codecs are, and so makes no call of
  the TLV codec; \<^verbatim>\<open>SendS2CResults\<close> is the call of \<^verbatim>\<open>WriteTLVMessage\<close> with the
  type \<^verbatim>\<open>TestMsg\<close> and the JSON text of the three-field result record.
\<close>

theorem jsonMessager_send_delegation:
  "map_option (\<lambda>m. SendMessage m kind contents w) (fst (Encoding_Messager ex JSON conn s)) =
     Some (SendJSONMessage ex kind contents conn w) \<and>
   snd (jsonMessager_SendMessage (recording_codec testMsg err msg) (jsonMessager conn) kind contents cs) =
     cs @ [Call_SendJSONMessage kind contents conn] \<and>
   map_option (\<lambda>m. SendS2CResults m a b c w) (fst (Encoding_Messager ex JSON conn s)) =
     Some (WriteTLVMessage ex conn (TestMsg ex)
       (s2cResult_String
          \<lparr>ThroughputValue = FormatInt (sint a), UnsentDataAmount = FormatInt (sint b),
             TotalSentByte = FormatInt (sint c)\<rparr>) w)"
  by (simp add: Encoding_Messager_def JSON_def TLV_def Unknown_def jsonMessager_iface_def
      jsonMessager_SendMessage_def jsonMessager_SendS2CResults_def recording_codec_def)

text \<open>
  Claim C3: for all three 64-bit signed arguments, \<^verbatim>\<open>SendS2CResults\<close> of the JSON
  messager writes the JSON object whose fields \<^verbatim>\<open>ThroughputValue\<close>,
  \<^verbatim>\<open>UnsentDataAmount\<close> and \<^verbatim>\<open>TotalSentByte\<close> are the decimal renderings as
  strings, and that of the TLV messager writes the three decimal renderings separated by
  single spaces; for 1000, 0 and 125000 these are the two payloads of the specification.
\<close>

theorem SendS2CResults_payloads:
  \<open>jsonMessager_SendS2CResults ex jm a b c =
     WriteTLVMessage ex (jm_conn jm) (TestMsg ex)
       (''{"ThroughputValue":"'' @ FormatInt (sint a) @ ''","UnsentDataAmount":"'' @
        FormatInt (sint b) @ ''","TotalSentByte":"'' @ FormatInt (sint c) @ ''"}'') \<and>
   tlvMessager_SendS2CResults ex tm a b c =
     WriteTLVMessage ex (tm_conn tm) (TestMsg ex)
       (FormatInt (sint a) @ '' '' @ FormatInt (sint b) @ '' '' @ FormatInt (sint c)) \<and>
   jsonMessager_SendS2CResults ex jm 1000 0 125000 =
     WriteTLVMessage ex (jm_conn jm) (TestMsg ex)
       ''{"ThroughputValue":"1000","UnsentDataAmount":"0","TotalSentByte":"125000"}'' \<and>
   tlvMessager_SendS2CResults ex tm 1000 0 125000 =
     WriteTLVMessage ex (tm_conn tm) (TestMsg ex) ''1000 0 125000''\<close>
  by (simp add: jsonMessager_SendS2CResults_payload tlvMessager_SendS2CResults_def
      FormatInt_1000 FormatInt_0 FormatInt_125000)

text \<open>
  Claim C4: when \<^verbatim>\<open>ReceiveJSONMessage\<close> returns neither a message nor an error,
  \<^verbatim>\<open>ReceiveMessage\<close> of the JSON messager returns no payload and the error
  ``empty message received without error''; when it returns no message and an error, that
  error is returned as it is.
\<close>

theorem jsonMessager_ReceiveMessage_no_message:
  "(ReceiveJSONMessage ex (jm_conn jm) kind w = ((None, None), w') \<longrightarrow>
      jsonMessager_ReceiveMessage ex jm kind w =
        ((None, Some (errors_New ''empty message received without error'')), w')) \<and>
   (ReceiveJSONMessage ex (jm_conn jm) kind w = ((None, Some err), w') \<longrightarrow>
      jsonMessager_ReceiveMessage ex jm kind w = ((None, Some err), w'))"
  by (simp add: jsonMessager_ReceiveMessage_def)

theorem jsonMessager_ReceiveMessage_no_message_witness:
  "ReceiveJSONMessage (recording_codec (5 :: nat) (None :: unit error option) None) (0 :: nat) 5 [] =
     ((None, None), [Call_ReceiveJSONMessage 0 5]) \<and>
   jsonMessager_ReceiveMessage (recording_codec (5 :: nat) (None :: unit error option) None)
       (jsonMessager (0 :: nat)) 5 [] =
     ((None, Some (errors_New ''empty message received without error'')),
      [Call_ReceiveJSONMessage 0 5]) \<and>
   ReceiveJSONMessage (recording_codec (5 :: nat) (Some (codec_error ())) None) (0 :: nat) 5 [] =
     ((None, Some (codec_error ())), [Call_ReceiveJSONMessage 0 5]) \<and>
   jsonMessager_ReceiveMessage (recording_codec (5 :: nat) (Some (codec_error ())) None)
       (jsonMessager (0 :: nat)) 5 [] =
     ((None, Some (codec_error ())), [Call_ReceiveJSONMessage 0 5])"
  using jsonMessager_ReceiveMessage_no_message
          [of "recording_codec (5 :: nat) (None :: unit error option) None"
              "jsonMessager (0 :: nat)" 5 "[]" "[Call_ReceiveJSONMessage 0 5]"]
        jsonMessager_ReceiveMessage_no_message
          [of "recording_codec (5 :: nat) (Some (codec_error ())) None"
              "jsonMessager (0 :: nat)" 5 "[]" "[Call_ReceiveJSONMessage 0 5]" "codec_error ()"]
  by (simp add: recording_codec_def)

text \<open>
  Claim C5: for \<^verbatim>\<open>JSON\<close> and for \<^verbatim>\<open>TLV\<close> the factory returns a messager, and
  the \<^verbatim>\<open>Encoding\<close> method of that messager returns the encoding asked for; for
  \<^verbatim>\<open>Unknown\<close> it returns nil. The three encodings are different values.
\<close>

theorem Encoding_Messager_Encoding:
  "map_option Encoding (fst (Encoding_Messager ex JSON conn s)) = Some JSON \<and>
   map_option Encoding (fst (Encoding_Messager ex TLV conn s)) = Some TLV \<and>
   fst (Encoding_Messager ex Unknown conn s) = None \<and>
   JSON \<noteq> Unknown \<and> TLV \<noteq> Unknown \<and> JSON \<noteq> TLV"
  by (simp add: Encoding_Messager_def JSON_def TLV_def Unknown_def jsonMessager_iface_def
      tlvMessager_iface_def jsonMessager_Encoding_def tlvMessager_Encoding_def)

subsection \<open>The walk of SendMetrics\<close>

lemma perform_append:
  "perform testMsg m (as @ bs) s =
     (case perform testMsg m as s of
        (Returned None, s') \<Rightarrow> perform testMsg m bs s'
      | (Returned (Some err), s') \<Rightarrow> (Returned (Some err), s')
      | (Panicked, s') \<Rightarrow> (Panicked, s'))"
proof (induction as arbitrary: s)
  case Nil
  show ?case by simp
next
  case (Cons a as)
  show ?case
  proof (cases a)
    case (Emit msg)
    then show ?thesis using Cons by (simp split: prod.splits option.splits)
  next
    case (Note line)
    then show ?thesis using Cons by simp
  next
    case Crash
    then show ?thesis by simp
  qed
qed

lemma SendMetrics_perform:
  "SendMetrics testMsg m v prefix s = perform testMsg m (actions v prefix) s"
  "SendMetrics_fields testMsg m fs prefix s = perform testMsg m (field_actions fs prefix) s"
proof (induction testMsg m v prefix s and testMsg m fs prefix s
       rule: SendMetrics_SendMetrics_fields.induct)
  case (9 testMsg m name pkg fv rest prefix s)
  show ?case
  proof (cases fv)
    case (IntV t n r)
    then show ?thesis using 9(1,2)
      by (simp split: prod.splits option.splits)
  next
    case (StringV x)
    then show ?thesis using 9(3)
      by (simp split: prod.splits option.splits)
  next
    case (StructV r fs)
    show ?thesis
    proof (cases "pkg \<noteq> []")
      case True
      then show ?thesis using StructV by simp
    next
      case False
      show ?thesis
      proof (cases r)
        case None
        then show ?thesis using False StructV 9(4,5)
          by (simp add: perform_append split: prod.splits option.splits outcome.splits)
      next
        case (Some x)
        then show ?thesis using False StructV 9(5)
          by (simp split: prod.splits option.splits outcome.splits)
      qed
    qed
  next
    case (PtrV p)
    then show ?thesis using 9(6) by simp
  next
    case (OtherV t)
    then show ?thesis using 9(7) by simp
  next
    case NilV
    then show ?thesis using 9(8) by simp
  qed
qed simp_all

lemma field_actions_append:
  "field_actions (fs1 @ fs2) prefix = field_actions fs1 prefix @ field_actions fs2 prefix"
proof (induction fs1)
  case Nil
  show ?case by simp
next
  case (Cons f fs1)
  obtain name pkg fv where f: "f = Field name pkg fv" by (cases f)
  show ?case unfolding f using Cons by simp
qed

lemma send_world:
  "world s1 = world s2 \<Longrightarrow>
     fst (send m testMsg msg s1) = fst (send m testMsg msg s2) \<and>
     world (snd (send m testMsg msg s1)) = world (snd (send m testMsg msg s2))"
  by (simp add: send_def split: prod.splits)

lemma perform_world:
  "world s1 = world s2 \<Longrightarrow>
     fst (perform testMsg m acts s1) = fst (perform testMsg m acts s2) \<and>
     world (snd (perform testMsg m acts s1)) = world (snd (perform testMsg m acts s2))"
proof (induction acts arbitrary: s1 s2)
  case Nil
  then show ?case by simp
next
  case (Cons a acts)
  show ?case
  proof (cases a)
    case (Emit msg)
    obtain e1 t1 where 1: "send m testMsg msg s1 = (e1, t1)" by (cases "send m testMsg msg s1")
    obtain e2 t2 where 2: "send m testMsg msg s2 = (e2, t2)" by (cases "send m testMsg msg s2")
    from send_world [OF Cons.prems, of m testMsg msg] 1 2
    have eq: "e1 = e2" "world t1 = world t2" by simp_all
    show ?thesis
    proof (cases e1)
      case None
      then show ?thesis using Emit 1 2 eq Cons.IH [OF eq(2)] by simp
    next
      case (Some err)
      then show ?thesis using Emit 1 2 eq by simp
    qed
  next
    case (Note line)
    have "world (log_Println line s1) = world (log_Println line s2)"
      using Cons.prems by (simp add: log_Println_def)
    from Cons.IH [OF this] show ?thesis using Note by simp
  next
    case Crash
    then show ?thesis using Cons.prems by simp
  qed
qed

lemma send_recording:
  "send (recording m) testMsg msg s =
     (case SendMessage m testMsg msg (fst (world s)) of
        (err, w') \<Rightarrow> (err, s\<lparr>world := (w', snd (world s) @ [(testMsg, msg, err)])\<rparr>))"
  by (cases "world s") (simp add: send_def recording_def split: prod.splits)

lemma perform_recording_trace:
  "\<exists>new. snd (world (snd (perform testMsg (recording m) acts s))) = snd (world s) @ new \<and>
     (\<forall>i < length new. snd (snd (new ! i)) \<noteq> None \<longrightarrow> Suc i = length new) \<and>
     (\<forall>e. fst (perform testMsg (recording m) acts s) = Returned (Some e) \<longleftrightarrow>
            new \<noteq> [] \<and> snd (snd (last new)) = Some e)"
proof (induction acts arbitrary: s)
  case Nil
  show ?case by simp
next
  case (Cons a acts)
  show ?case
  proof (cases a)
    case (Emit msg)
    obtain err w' where sm: "SendMessage m testMsg msg (fst (world s)) = (err, w')"
      by (cases "SendMessage m testMsg msg (fst (world s))")
    define s1 where "s1 = s\<lparr>world := (w', snd (world s) @ [(testMsg, msg, err)])\<rparr>"
    have snd1: "send (recording m) testMsg msg s = (err, s1)"
      by (simp add: send_recording sm s1_def)
    show ?thesis
    proof (cases err)
      case (Some e)
      have "perform testMsg (recording m) (a # acts) s = (Returned (Some e), s1)"
        using Emit snd1 Some by simp
      then show ?thesis
        by (intro exI [of _ "[(testMsg, msg, err)]"]) (simp add: s1_def Some)
    next
      case None
      have run: "perform testMsg (recording m) (a # acts) s = perform testMsg (recording m) acts s1"
        using Emit snd1 None by simp
      from Cons.IH [of s1] obtain new where
        tr: "snd (world (snd (perform testMsg (recording m) acts s1))) = snd (world s1) @ new"
        and ix: "\<forall>i < length new. snd (snd (new ! i)) \<noteq> None \<longrightarrow> Suc i = length new"
        and rs: "\<forall>e. fst (perform testMsg (recording m) acts s1) = Returned (Some e) \<longleftrightarrow>
                   new \<noteq> [] \<and> snd (snd (last new)) = Some e"
        by blast
      let ?new = "(testMsg, msg, err) # new"
      have 1: "snd (world (snd (perform testMsg (recording m) (a # acts) s))) = snd (world s) @ ?new"
        using tr by (simp add: run s1_def)
      have 2: "\<forall>i < length ?new. snd (snd (?new ! i)) \<noteq> None \<longrightarrow> Suc i = length ?new"
      proof (intro allI impI)
        fix i assume i: "i < length ?new" and f: "snd (snd (?new ! i)) \<noteq> None"
        show "Suc i = length ?new"
        proof (cases i)
          case 0
          then show ?thesis using f None by simp
        next
          case (Suc j)
          then show ?thesis using i f ix by simp
        qed
      qed
      have 3: "\<forall>e. fst (perform testMsg (recording m) (a # acts) s) = Returned (Some e) \<longleftrightarrow>
                 ?new \<noteq> [] \<and> snd (snd (last ?new)) = Some e"
        using rs None by (simp add: run)
      from 1 2 3 show ?thesis by blast
    qed
  next
    case (Note line)
    have "perform testMsg (recording m) (a # acts) s =
            perform testMsg (recording m) acts (log_Println line s)"
      using Note by simp
    moreover have "world (log_Println line s) = world s"
      by (simp add: log_Println_def)
    ultimately show ?thesis using Cons.IH [of "log_Println line s"] by simp
  next
    case Crash
    then show ?thesis by simp
  qed
qed

lemma unsupported_field_actions:
  assumes "Kind_of fv \<notin> {IntK, Int8, Int16, Int32, Int64, Uint8, Uint16, Uint32, Uint64, String, Struct}"
  shows "field_actions (Field name pkg fv # rest) prefix =
           Note (''Unhandled case in SendMetrics: '' @ Kind_String (Kind_of fv)) #
           field_actions rest prefix"
  using assms by (cases fv) simp_all

lemma perform_Note_world:
  "fst (perform testMsg m (Note line # acts) s) = fst (perform testMsg m acts s) \<and>
   world (snd (perform testMsg m (Note line # acts) s)) = world (snd (perform testMsg m acts s))"
proof -
  have "world (log_Println line s) = world s" by (simp add: log_Println_def)
  from perform_world [OF this] show ?thesis by simp
qed

lemma perform_insert_Note:
  "fst (perform testMsg m (as @ Note line # bs) s) = fst (perform testMsg m (as @ bs) s) \<and>
   world (snd (perform testMsg m (as @ Note line # bs) s)) =
     world (snd (perform testMsg m (as @ bs) s))"
proof -
  obtain r s1 where run: "perform testMsg m as s = (r, s1)" by (cases "perform testMsg m as s")
  show ?thesis
  proof (cases r)
    case Panicked
    then show ?thesis using run by (simp add: perform_append)
  next
    case (Returned err)
    show ?thesis
    proof (cases err)
      case (Some e)
      then show ?thesis using run Returned by (simp add: perform_append)
    next
      case None
      then show ?thesis using run Returned perform_Note_world [of testMsg m line bs s1]
        by (simp add: perform_append)
    qed
  qed
qed

lemma perform_all_Notes:
  "\<forall>a \<in> set acts. \<exists>line. a = Note line \<Longrightarrow>
     fst (perform testMsg m acts s) = Returned None \<and> world (snd (perform testMsg m acts s)) = world s"
proof (induction acts arbitrary: s)
  case Nil
  show ?case by simp
next
  case (Cons a acts)
  then obtain line where a: "a = Note line" by auto
  have "\<forall>a \<in> set acts. \<exists>line. a = Note line" using Cons.prems by simp
  from Cons.IH [OF this, of "log_Println line s"] show ?case
    by (simp add: a log_Println_def)
qed

lemma all_unsupported_actions:
  "\<forall>f \<in> set fs. Kind_of (Value f) \<notin> {IntK, Int8, Int16, Int32, Int64, Uint8, Uint16, Uint32, Uint64, String, Struct} \<Longrightarrow>
     \<forall>a \<in> set (field_actions fs prefix). \<exists>line. a = Note line"
proof (induction fs)
  case Nil
  show ?case by simp
next
  case (Cons f fs)
  obtain name pkg fv where f: "f = Field name pkg fv" by (cases f)
  have u: "Kind_of fv \<notin> {IntK, Int8, Int16, Int32, Int64, Uint8, Uint16, Uint32, Uint64, String, Struct}"
    using Cons.prems f by simp
  have "\<forall>f \<in> set fs. Kind_of (Value f) \<notin> {IntK, Int8, Int16, Int32, Int64, Uint8, Uint16, Uint32, Uint64, String, Struct}"
    using Cons.prems by simp
  from Cons.IH [OF this] show ?case
    unfolding f unsupported_field_actions [OF u] by simp
qed

lemma SendMetrics_failing_run:
  "SendMetrics (5 :: nat)
     (recording (tlvMessager_iface (recording_codec 5 (Some (codec_error ())) None) (tlvMessager (0 :: nat))))
     (StructV None [Field ''A'' [] (IntV int_t 5 None), Field ''B'' [] (StringV ''x'')]) []
     \<lparr>world = ([], []), logged = []\<rparr> =
   (Returned (Some (codec_error ())),
    \<lparr>world = ([Call_WriteTLVMessage 0 5 ''A: 5\<newline>''], [(5, ''A: 5\<newline>'', Some (codec_error ()))]),
       logged = []\<rparr>)"
  by (simp add: send_recording tlvMessager_iface_def tlvMessager_SendMessage_def recording_codec_def
      FormatInt_5)

text \<open>
  Claim C2 says that a field of any integer kind, signed or unsigned, is sent as one message
  \<^verbatim>\<open>prefix name: value\<close>. The first case of the \<^verbatim>\<open>switch\<close> lists nine integer
  kinds and leaves \<^verbatim>\<open>reflect.Uint\<close> out: for the record with the single field
  \<^verbatim>\<open>A uint\<close> holding 5, \<^verbatim>\<open>SendMetrics\<close> sends nothing, logs the field as an
  unhandled case and returns nil, with any messager; with \<^verbatim>\<open>A uint64\<close> it sends the
  message \<^verbatim>\<open>A: 5\<close>.
\<close>

theorem SendMetrics_uint_field_not_sent:
  "SendMetrics testMsg m (StructV None [Field ''A'' [] (IntV uint_t 5 None)]) [] s =
     (Returned None, log_Println ''Unhandled case in SendMetrics: uint'' s) \<and>
   SendMetrics testMsg m (StructV None [Field ''A'' [] (IntV uint64_t 5 None)]) [] s =
     (case send m testMsg ''A: 5\<newline>'' s of (err, s') \<Rightarrow> (Returned err, s'))"
  by (simp add: FormatInt_5 split: prod.splits option.splits)

text \<open>
  Claim C6: on the record with the fields \<^verbatim>\<open>A\<close> holding the int 5 and \<^verbatim>\<open>B\<close>
  holding the string \<^verbatim>\<open>x\<close>, with the empty prefix, the calls of \<^verbatim>\<open>SendMessage\<close>
  are exactly two, first \<^verbatim>\<open>A: 5\<close> and then \<^verbatim>\<open>B: x\<close>, each with a newline at its
  end and of type \<^verbatim>\<open>TestMsg\<close> (the second is made when the first returns no error).
  In general the fields are walked in declared order: the walk over the fields \<open>fs1\<close>
  followed by \<open>fs2\<close> is the walk over \<open>fs1\<close> and then, when that returns nil, the walk
  over \<open>fs2\<close> from the state reached.
\<close>

theorem SendMetrics_declared_order:
  "(fst (SendMessage m testMsg ''A: 5\<newline>'' w) = None \<longrightarrow>
      map (\<lambda>(kind, contents, err). (kind, contents))
        (attempts (SendMetrics testMsg (recording m)
           (StructV r [Field ''A'' [] (IntV int_t 5 None), Field ''B'' [] (StringV ''x'')]) []
           \<lparr>world = (w, []), logged = l\<rparr>)) =
      [(testMsg, ''A: 5\<newline>''), (testMsg, ''B: x\<newline>'')]) \<and>
   SendMetrics_fields testMsg m (fs1 @ fs2) prefix s =
     (case SendMetrics_fields testMsg m fs1 prefix s of
        (Returned None, s') \<Rightarrow> SendMetrics_fields testMsg m fs2 prefix s'
      | (Returned (Some err), s') \<Rightarrow> (Returned (Some err), s')
      | (Panicked, s') \<Rightarrow> (Panicked, s'))"
proof (intro conjI impI)
  assume "fst (SendMessage m testMsg ''A: 5\<newline>'' w) = None"
  then obtain w1 where 1: "SendMessage m testMsg ''A: 5\<newline>'' w = (None, w1)"
    by (cases "SendMessage m testMsg ''A: 5\<newline>'' w") simp
  obtain e2 w2 where 2: "SendMessage m testMsg ''B: x\<newline>'' w1 = (e2, w2)"
    by (cases "SendMessage m testMsg ''B: x\<newline>'' w1")
  show "map (\<lambda>(kind, contents, err). (kind, contents))
        (attempts (SendMetrics testMsg (recording m)
           (StructV r [Field ''A'' [] (IntV int_t 5 None), Field ''B'' [] (StringV ''x'')]) []
           \<lparr>world = (w, []), logged = l\<rparr>)) =
      [(testMsg, ''A: 5\<newline>''), (testMsg, ''B: x\<newline>'')]"
    by (cases e2) (simp_all add: send_recording FormatInt_5 attempts_def 1 2)
next
  show "SendMetrics_fields testMsg m (fs1 @ fs2) prefix s =
     (case SendMetrics_fields testMsg m fs1 prefix s of
        (Returned None, s') \<Rightarrow> SendMetrics_fields testMsg m fs2 prefix s'
      | (Returned (Some err), s') \<Rightarrow> (Returned (Some err), s')
      | (Panicked, s') \<Rightarrow> (Panicked, s'))"
    by (simp only: SendMetrics_perform field_actions_append perform_append)
qed

theorem SendMetrics_declared_order_witness:
  "fst (SendMessage (tlvMessager_iface (recording_codec (5 :: nat) (None :: unit error option) None)
          (tlvMessager (0 :: nat))) 5 ''A: 5\<newline>'' []) = None \<and>
   map (\<lambda>(kind, contents, err). (kind, contents))
     (attempts (SendMetrics 5
        (recording (tlvMessager_iface (recording_codec (5 :: nat) (None :: unit error option) None)
          (tlvMessager (0 :: nat))))
        (StructV None [Field ''A'' [] (IntV int_t 5 None), Field ''B'' [] (StringV ''x'')]) []
        \<lparr>world = ([], []), logged = []\<rparr>)) =
   [(5, ''A: 5\<newline>''), (5, ''B: x\<newline>'')]"
  using SendMetrics_declared_order [where testMsg = "5 :: nat"
      and m = "tlvMessager_iface (recording_codec (5 :: nat) (None :: unit error option) None)
                 (tlvMessager (0 :: nat))"
      and w = "[]" and r = None and l = "[]" and ?fs1.0 = "[]" and ?fs2.0 = "[]" and prefix = "[]"
      and s = "\<lparr>world = [], logged = []\<rparr>"]
  by (simp add: tlvMessager_iface_def tlvMessager_SendMessage_def recording_codec_def)

text \<open>
  Claim C7: on a record whose single field \<^verbatim>\<open>Inner\<close> is a struct, with the empty prefix,
  the calls of \<^verbatim>\<open>SendMessage\<close> are the single line \<^verbatim>\<open>Inner: \<close> followed by the
  rendering when the struct type has a \<^verbatim>\<open>String\<close> method, and otherwise, for the inner
  record with the field \<^verbatim>\<open>C\<close> holding 1, the single line \<^verbatim>\<open>Inner.C: 1\<close>. In
  general an exported struct field without a \<^verbatim>\<open>String\<close> method is walked as a record
  of its own under the prefix extended by the field's name and a dot.
\<close>

theorem SendMetrics_nested_struct:
  "attempts (SendMetrics testMsg (recording m)
      (StructV r [Field ''Inner'' [] (StructV (Some x) fs)]) [] \<lparr>world = (w, []), logged = l\<rparr>) =
     [(testMsg, ''Inner: '' @ x @ ''\<newline>'',
       fst (SendMessage m testMsg (''Inner: '' @ x @ ''\<newline>'') w))] \<and>
   attempts (SendMetrics testMsg (recording m)
      (StructV r [Field ''Inner'' [] (StructV None [Field ''C'' [] (IntV int_t 1 None)])]) []
      \<lparr>world = (w, []), logged = l\<rparr>) =
     [(testMsg, ''Inner.C: 1\<newline>'', fst (SendMessage m testMsg ''Inner.C: 1\<newline>'' w))] \<and>
   SendMetrics testMsg m (StructV r [Field name [] (StructV None fs)]) prefix s =
     SendMetrics testMsg m (StructV None fs) (prefix @ name @ ''.'') s"
proof (intro conjI)
  obtain e1 w1 where 1: "SendMessage m testMsg (''Inner: '' @ x @ ''\<newline>'') w = (e1, w1)"
    by (cases "SendMessage m testMsg (''Inner: '' @ x @ ''\<newline>'') w")
  show "attempts (SendMetrics testMsg (recording m)
      (StructV r [Field ''Inner'' [] (StructV (Some x) fs)]) [] \<lparr>world = (w, []), logged = l\<rparr>) =
     [(testMsg, ''Inner: '' @ x @ ''\<newline>'',
       fst (SendMessage m testMsg (''Inner: '' @ x @ ''\<newline>'') w))]"
    using 1 by (cases e1) (simp_all add: send_recording attempts_def)
next
  obtain e1 w1 where 1: "SendMessage m testMsg ''Inner.C: 1\<newline>'' w = (e1, w1)"
    by (cases "SendMessage m testMsg ''Inner.C: 1\<newline>'' w")
  show "attempts (SendMetrics testMsg (recording m)
      (StructV r [Field ''Inner'' [] (StructV None [Field ''C'' [] (IntV int_t 1 None)])]) []
      \<lparr>world = (w, []), logged = l\<rparr>) =
     [(testMsg, ''Inner.C: 1\<newline>'', fst (SendMessage m testMsg ''Inner.C: 1\<newline>'' w))]"
    using 1 by (cases e1) (simp_all add: send_recording attempts_def FormatInt_1)
next
  obtain res s1 where run: "SendMetrics_fields testMsg m fs (prefix @ name @ ''.'') s = (res, s1)"
    by (cases "SendMetrics_fields testMsg m fs (prefix @ name @ ''.'') s")
  show "SendMetrics testMsg m (StructV r [Field name [] (StructV None fs)]) prefix s =
     SendMetrics testMsg m (StructV None fs) (prefix @ name @ ''.'') s"
    using run by (simp split: outcome.splits option.splits)
qed

text \<open>
  Claim C8: in a run of \<^verbatim>\<open>SendMetrics\<close> on any value, with any messager and prefix, a
  call of \<^verbatim>\<open>SendMessage\<close> that returns an error is the last call made, and that error
  is what \<^verbatim>\<open>SendMetrics\<close> returns; and an error that \<^verbatim>\<open>SendMetrics\<close> returns is
  the one its last call of \<^verbatim>\<open>SendMessage\<close> returned.
\<close>

theorem SendMetrics_first_error_aborts:
  assumes "res = SendMetrics testMsg (recording m) v prefix \<lparr>world = (w, []), logged = l\<rparr>"
  shows "(i < length (attempts res) \<and> snd (snd (attempts res ! i)) = Some e \<longrightarrow>
            Suc i = length (attempts res) \<and> fst res = Returned (Some e)) \<and>
         (fst res = Returned (Some e) \<longrightarrow>
            attempts res \<noteq> [] \<and> snd (snd (last (attempts res))) = Some e)"
proof -
  have res: "res = perform testMsg (recording m) (actions v prefix) \<lparr>world = (w, []), logged = l\<rparr>"
    using assms by (simp only: SendMetrics_perform)
  from perform_recording_trace [of testMsg m "actions v prefix" "\<lparr>world = (w, []), logged = l\<rparr>"]
  obtain new where
    tr: "snd (world (snd res)) = new"
    and ix: "\<forall>i < length new. snd (snd (new ! i)) \<noteq> None \<longrightarrow> Suc i = length new"
    and rs: "\<forall>e. fst res = Returned (Some e) \<longleftrightarrow> new \<noteq> [] \<and> snd (snd (last new)) = Some e"
    unfolding res by auto
  have att: "attempts res = new"
    using tr by (simp add: attempts_def)
  show ?thesis
  proof (intro conjI impI)
    assume a: "i < length (attempts res) \<and> snd (snd (attempts res ! i)) = Some e"
    then have len: "Suc i = length new"
      using ix att by simp
    then have ne: "new \<noteq> []"
      by auto
    have "length new - 1 = i"
      using len by arith
    moreover have "last new = new ! (length new - 1)"
      using ne by (rule last_conv_nth)
    ultimately have "last new = new ! i"
      by (simp only:)
    note ne this
    then have "fst res = Returned (Some e)"
      using a att rs by simp
    then show "Suc i = length (attempts res)" and "fst res = Returned (Some e)"
      using len att by simp_all
  next
    assume "fst res = Returned (Some e)"
    then show "attempts res \<noteq> []" and "snd (snd (last (attempts res))) = Some e"
      using rs att by simp_all
  qed
qed

theorem SendMetrics_first_error_aborts_witness:
  "0 < length (attempts (SendMetrics (5 :: nat)
     (recording (tlvMessager_iface (recording_codec 5 (Some (codec_error ())) None) (tlvMessager (0 :: nat))))
     (StructV None [Field ''A'' [] (IntV int_t 5 None), Field ''B'' [] (StringV ''x'')]) []
     \<lparr>world = ([], []), logged = []\<rparr>)) \<and>
   attempts (SendMetrics (5 :: nat)
     (recording (tlvMessager_iface (recording_codec 5 (Some (codec_error ())) None) (tlvMessager (0 :: nat))))
     (StructV None [Field ''A'' [] (IntV int_t 5 None), Field ''B'' [] (StringV ''x'')]) []
     \<lparr>world = ([], []), logged = []\<rparr>) = [(5, ''A: 5\<newline>'', Some (codec_error ()))] \<and>
   fst (SendMetrics (5 :: nat)
     (recording (tlvMessager_iface (recording_codec 5 (Some (codec_error ())) None) (tlvMessager (0 :: nat))))
     (StructV None [Field ''A'' [] (IntV int_t 5 None), Field ''B'' [] (StringV ''x'')]) []
     \<lparr>world = ([], []), logged = []\<rparr>) = Returned (Some (codec_error ()))"
  using SendMetrics_first_error_aborts [OF refl, where i = 0 and e = "codec_error ()" and testMsg = "5 :: nat"
      and m = "tlvMessager_iface (recording_codec 5 (Some (codec_error ())) None) (tlvMessager (0 :: nat))"
      and v = "StructV None [Field ''A'' [] (IntV int_t 5 None), Field ''B'' [] (StringV ''x'')]"
      and prefix = "[]" and w = "[]" and l = "[]"]
  unfolding SendMetrics_failing_run by (simp add: attempts_def)

text \<open>
  Claim C9: a field whose kind is none of the nine integer kinds of the \<^verbatim>\<open>switch\<close>, nor
  string, nor struct, changes neither what the loop over the fields returns nor the state
  of the messager and its connection: with the field or without it, the result and the
  messages sent are the same. A record with only such fields returns nil and sends
  nothing.
\<close>

theorem SendMetrics_unsupported_kind_skipped:
  "(Kind_of fv \<notin> {IntK, Int8, Int16, Int32, Int64, Uint8, Uint16, Uint32, Uint64, String, Struct} \<longrightarrow>
      fst (SendMetrics_fields testMsg m (fs1 @ Field name pkg fv # fs2) prefix s) =
        fst (SendMetrics_fields testMsg m (fs1 @ fs2) prefix s) \<and>
      world (snd (SendMetrics_fields testMsg m (fs1 @ Field name pkg fv # fs2) prefix s)) =
        world (snd (SendMetrics_fields testMsg m (fs1 @ fs2) prefix s))) \<and>
   ((\<forall>f \<in> set fs. Kind_of (Value f) \<notin>
        {IntK, Int8, Int16, Int32, Int64, Uint8, Uint16, Uint32, Uint64, String, Struct}) \<longrightarrow>
      fst (SendMetrics testMsg m (StructV r fs) prefix s) = Returned None \<and>
      world (snd (SendMetrics testMsg m (StructV r fs) prefix s)) = world s)"
proof (intro conjI impI)
  assume u: "Kind_of fv \<notin> {IntK, Int8, Int16, Int32, Int64, Uint8, Uint16, Uint32, Uint64, String, Struct}"
  have acts: "field_actions (fs1 @ Field name pkg fv # fs2) prefix =
          field_actions fs1 prefix @
          Note (''Unhandled case in SendMetrics: '' @ Kind_String (Kind_of fv)) #
          field_actions fs2 prefix"
    by (simp only: field_actions_append unsupported_field_actions [OF u])
  have eq1: "SendMetrics_fields testMsg m (fs1 @ Field name pkg fv # fs2) prefix s =
          perform testMsg m (field_actions fs1 prefix @
            Note (''Unhandled case in SendMetrics: '' @ Kind_String (Kind_of fv)) #
            field_actions fs2 prefix) s"
    by (simp only: SendMetrics_perform acts)
  have eq2: "SendMetrics_fields testMsg m (fs1 @ fs2) prefix s =
          perform testMsg m (field_actions fs1 prefix @ field_actions fs2 prefix) s"
    by (simp only: SendMetrics_perform field_actions_append)
  show "fst (SendMetrics_fields testMsg m (fs1 @ Field name pkg fv # fs2) prefix s) =
        fst (SendMetrics_fields testMsg m (fs1 @ fs2) prefix s)"
    unfolding eq1 eq2 by (rule perform_insert_Note [THEN conjunct1])
  show "world (snd (SendMetrics_fields testMsg m (fs1 @ Field name pkg fv # fs2) prefix s)) =
        world (snd (SendMetrics_fields testMsg m (fs1 @ fs2) prefix s))"
    unfolding eq1 eq2 by (rule perform_insert_Note [THEN conjunct2])
next
  assume "\<forall>f \<in> set fs. Kind_of (Value f) \<notin>
        {IntK, Int8, Int16, Int32, Int64, Uint8, Uint16, Uint32, Uint64, String, Struct}"
  from perform_all_Notes [OF all_unsupported_actions [OF this], of testMsg m prefix s]
  show "fst (SendMetrics testMsg m (StructV r fs) prefix s) = Returned None"
    and "world (snd (SendMetrics testMsg m (StructV r fs) prefix s)) = world s"
    by (simp_all only: SendMetrics_perform actions.simps)
qed

theorem SendMetrics_unsupported_kind_skipped_witness:
  "Kind_of (OtherV bool_t) \<notin>
     {IntK, Int8, Int16, Int32, Int64, Uint8, Uint16, Uint32, Uint64, String, Struct} \<and>
   SendMetrics_fields (5 :: nat)
     (tlvMessager_iface (recording_codec 5 (None :: unit error option) None) (tlvMessager (0 :: nat)))
     [Field ''A'' [] (IntV int_t 5 None), Field ''Flag'' [] (OtherV bool_t), Field ''B'' [] (StringV ''x'')]
     [] \<lparr>world = [], logged = []\<rparr> =
   (Returned None,
    \<lparr>world = [Call_WriteTLVMessage 0 5 ''A: 5\<newline>'', Call_WriteTLVMessage 0 5 ''B: x\<newline>''],
       logged = [''Unhandled case in SendMetrics: bool'']\<rparr>) \<and>
   SendMetrics_fields (5 :: nat)
     (tlvMessager_iface (recording_codec 5 (None :: unit error option) None) (tlvMessager (0 :: nat)))
     [Field ''A'' [] (IntV int_t 5 None), Field ''B'' [] (StringV ''x'')]
     [] \<lparr>world = [], logged = []\<rparr> =
   (Returned None,
    \<lparr>world = [Call_WriteTLVMessage 0 5 ''A: 5\<newline>'', Call_WriteTLVMessage 0 5 ''B: x\<newline>''],
       logged = []\<rparr>) \<and>
   Kind_of (Value (Field ''Flag'' [] (OtherV bool_t))) \<notin>
     {IntK, Int8, Int16, Int32, Int64, Uint8, Uint16, Uint32, Uint64, String, Struct} \<and>
   SendMetrics (5 :: nat)
     (tlvMessager_iface (recording_codec 5 (None :: unit error option) None) (tlvMessager (0 :: nat)))
     (StructV None [Field ''Flag'' [] (OtherV bool_t)]) [] \<lparr>world = [], logged = []\<rparr> =
   (Returned None, \<lparr>world = [], logged = [''Unhandled case in SendMetrics: bool'']\<rparr>)"
  using SendMetrics_unsupported_kind_skipped [where testMsg = "5 :: nat"
      and m = "tlvMessager_iface (recording_codec 5 (None :: unit error option) None) (tlvMessager (0 :: nat))"
      and fv = "OtherV bool_t" and name = "''Flag''" and pkg = "[]"
      and ?fs1.0 = "[Field ''A'' [] (IntV int_t 5 None)]" and ?fs2.0 = "[Field ''B'' [] (StringV ''x'')]"
      and fs = "[Field ''Flag'' [] (OtherV bool_t)]" and r = None
      and prefix = "[]" and s = "\<lparr>world = [], logged = []\<rparr>"]
  by (simp add: send_def tlvMessager_iface_def tlvMessager_SendMessage_def recording_codec_def
      log_Println_def FormatInt_5)

text \<open>
  Claim C10: \<^verbatim>\<open>SendMetrics\<close> on a pointer to a value, through any number of pointers,
  returns what it returns on the value itself and leaves the same state, with any
  messager and prefix.
\<close>

theorem SendMetrics_pointer_transparent:
  "SendMetrics testMsg m (((\<lambda>x. PtrV (Some x)) ^^ n) v) prefix s = SendMetrics testMsg m v prefix s"
  by (induction n) simp_all

end
